theory Spec2Isabelle
  imports Main
begin

section \<open>JavaScript values, thrown errors and callables\<close>

text \<open>
  The program is a JavaScript walkthrough (\<^verbatim>\<open>functional-sample.js\<close>) that builds a password
  verifier from a list of rules.  Its functions are embedded as HOL functions:

  \<^item> a JavaScript value is a \<open>jsval\<close>: \<^verbatim>\<open>undefined\<close>, \<^verbatim>\<open>null\<close>, a boolean, a string
    (a list of code units below 256), an array, or an object.  The only properties the
    program ever writes or reads by name on an object are \<^verbatim>\<open>passed\<close> and \<^verbatim>\<open>reason\<close>, so an
    object is an association list over these two keys; numbers only occur as the
    \<^verbatim>\<open>length\<close> of a string or an array and are compared on the spot;
  \<^item> a \<^verbatim>\<open>throw\<close> is the left injection of a sum: \<open>exn + 'a\<close>;
  \<^item> a position where the program expects a function but JavaScript lets any value
    stand (an element of \<^verbatim>\<open>rules\<close>, the arguments of \<^verbatim>\<open>errorSafe\<close>) has type \<open>'f js\<close>:
    either a function \<open>Fn f\<close> or a value that is not callable, \<open>NotFn v\<close>;
  \<^item> the rules of the file are pure functions of their input (none reads or writes a
    variable), and \<open>'i rule\<close> is the type of such a rule; the input of the generic
    functions is of any type \<open>'i\<close>;
  \<^item> \<^verbatim>\<open>validateRules\<close> accepts any function, also one that reads and writes variables of
    its closure.  Such a rule is an \<open>('i, 's) srule\<close>: it takes the store \<open>'s\<close> of those
    variables and gives it back, and the validated builder is embedded a second time,
    as \<open>buildPasswordVerifier_st\<close>, with the store threaded through the calls.
\<close>

datatype key = K_passed | K_reason

datatype jsval =
    Undefined
  | Null
  | Bool bool
  | Str string
  | Arr "jsval list"
  | Obj "(key \<times> jsval) list"

datatype exn = Error string | TypeError string

datatype 'f js = Fn 'f | NotFn jsval

type_synonym 'i rule = "'i \<Rightarrow> exn + jsval"

fun key_name :: "key \<Rightarrow> string" where
  "key_name K_passed = ''passed''"
| "key_name K_reason = ''reason''"

text \<open>\<^verbatim>\<open>typeof v\<close> for a value that is not a function.\<close>

fun typeof_val :: "jsval \<Rightarrow> string" where
  "typeof_val Undefined = ''undefined''"
| "typeof_val Null = ''object''"
| "typeof_val (Bool b) = ''boolean''"
| "typeof_val (Str s) = ''string''"
| "typeof_val (Arr xs) = ''object''"
| "typeof_val (Obj ps) = ''object''"

fun typeof :: "'f js \<Rightarrow> string" where
  "typeof (Fn f) = ''function''"
| "typeof (NotFn v) = typeof_val v"

text \<open>The truthiness of a value, as \<^verbatim>\<open>!v\<close>, \<^verbatim>\<open>v ? a : b\<close> and \<^verbatim>\<open>v && w\<close> test it.\<close>

fun truthy :: "jsval \<Rightarrow> bool" where
  "truthy Undefined = False"
| "truthy Null = False"
| "truthy (Bool b) = b"
| "truthy (Str s) = (s \<noteq> [])"
| "truthy (Arr xs) = True"
| "truthy (Obj ps) = True"

text \<open>
  The property read \<^verbatim>\<open>v.passed\<close> or \<^verbatim>\<open>v.reason\<close>: a TypeError on \<^verbatim>\<open>undefined\<close> and \<^verbatim>\<open>null\<close>,
  the property's value on an object that has it, \<^verbatim>\<open>undefined\<close> otherwise (no built-in
  prototype defines \<^verbatim>\<open>passed\<close> or \<^verbatim>\<open>reason\<close>).
\<close>

fun get_prop :: "jsval \<Rightarrow> key \<Rightarrow> exn + jsval" where
  "get_prop Undefined k = Inl (TypeError (''Cannot read property '' @ key_name k @ '' of undefined''))"
| "get_prop Null k = Inl (TypeError (''Cannot read property '' @ key_name k @ '' of null''))"
| "get_prop (Obj ps) k = Inr (case map_of ps k of None \<Rightarrow> Undefined | Some v \<Rightarrow> v)"
| "get_prop (Bool b) k = Inr Undefined"
| "get_prop (Str s) k = Inr Undefined"
| "get_prop (Arr xs) k = Inr Undefined"

text \<open>Sequencing of two computations that may throw: the second runs on the first's value.\<close>

fun and_then :: "exn + 'a \<Rightarrow> ('a \<Rightarrow> exn + 'b) \<Rightarrow> exn + 'b" where
  "and_then (Inl e) k = Inl e"
| "and_then (Inr x) k = k x"

text \<open>
  \<^verbatim>\<open>Array.prototype.map\<close> and \<^verbatim>\<open>Array.prototype.filter\<close> with a callback that may throw:
  the callback runs on the elements from left to right, the first throw ends the loop,
  and the receiver is not changed.
\<close>

fun array_map :: "('a \<Rightarrow> exn + 'b) \<Rightarrow> 'a list \<Rightarrow> exn + 'b list" where
  "array_map f [] = Inr []"
| "array_map f (x # xs) =
     and_then (f x) (\<lambda>y. and_then (array_map f xs) (\<lambda>ys. Inr (y # ys)))"

fun array_filter :: "('a \<Rightarrow> exn + bool) \<Rightarrow> 'a list \<Rightarrow> exn + 'a list" where
  "array_filter p [] = Inr []"
| "array_filter p (x # xs) =
     and_then (p x) (\<lambda>keep. and_then (array_filter p xs) (\<lambda>ys. Inr (if keep then x # ys else ys)))"

text \<open>The call \<^verbatim>\<open>rule(input)\<close> of an element of the rules array.\<close>

fun call_rule :: "'i rule js \<Rightarrow> 'i \<Rightarrow> exn + jsval" where
  "call_rule (Fn f) input = f input"
| "call_rule (NotFn v) input = Inl (TypeError ''rule is not a function'')"

text \<open>The two callbacks of the pipeline: \<^verbatim>\<open>result => !result.passed\<close> and \<^verbatim>\<open>failed => failed.reason\<close>.\<close>

definition not_passed :: "jsval \<Rightarrow> exn + bool" where
  "not_passed result = and_then (get_prop result K_passed) (\<lambda>p. Inr (\<not> truthy p))"

definition reason_of :: "jsval \<Rightarrow> exn + jsval" where
  "reason_of failed = get_prop failed K_reason"

section \<open>The functions of the file\<close>

text \<open>Lines 4-11: the two-argument \<^verbatim>\<open>verifyPassword(rules, input)\<close>.\<close>

definition verifyPassword :: "'i rule js list \<Rightarrow> 'i \<Rightarrow> exn + jsval list" where
  "verifyPassword rules input =
     and_then (array_map (\<lambda>rule. call_rule rule input) rules) (\<lambda>results.
     and_then (array_filter not_passed results) (\<lambda>faileds.
     array_map reason_of faileds))"

text \<open>
  Line 15: the rule factory
  \<^verbatim>\<open>verify = (criteria, reason) => input => criteria(input) ? { passed: true } : { passed: false, reason }\<close>.
\<close>

definition verify :: "('i \<Rightarrow> exn + jsval) \<Rightarrow> jsval \<Rightarrow> 'i rule" where
  "verify criteria reason = (\<lambda>input.
     and_then (criteria input) (\<lambda>c.
       Inr (if truthy c then Obj [(K_passed, Bool True)]
            else Obj [(K_passed, Bool False), (K_reason, reason)])))"

text \<open>
  Lines 25-32: the first \<^verbatim>\<open>buildPasswordVerifier\<close>, a closure over \<^verbatim>\<open>rules\<close> with no
  validation.  Building cannot throw.
\<close>

definition buildPasswordVerifier_unchecked :: "'i rule js list \<Rightarrow> 'i \<Rightarrow> exn + jsval list" where
  "buildPasswordVerifier_unchecked rules = (\<lambda>input.
     and_then (array_map (\<lambda>rule. call_rule rule input) rules) (\<lambda>results.
     and_then (array_filter not_passed results) (\<lambda>faileds.
     array_map reason_of faileds)))"

text \<open>
  Lines 72-74: \<^verbatim>\<open>validateRules\<close> throws \<^verbatim>\<open>new Error("Rules must be a function")\<close> when
  some element of \<^verbatim>\<open>rules\<close> has a \<^verbatim>\<open>typeof\<close> other than \<^verbatim>\<open>"function"\<close>.
\<close>

definition validateRules :: "'f js list \<Rightarrow> exn + unit" where
  "validateRules rules =
     (if list_ex (\<lambda>rule. typeof rule \<noteq> ''function'') rules
      then Inl (Error ''Rules must be a function'')
      else Inr ())"

text \<open>
  Lines 85-91: the validated \<^verbatim>\<open>buildPasswordVerifier\<close>, on rules that are pure functions
  of the input; \<open>verifier_body\<close> is the arrow function it returns (lines 87-90).
\<close>

definition verifier_body :: "'i rule js list \<Rightarrow> 'i \<Rightarrow> exn + jsval list" where
  "verifier_body rules input =
     and_then (array_map (\<lambda>rule. call_rule rule input) rules) (\<lambda>results.
     and_then (array_filter not_passed results) (\<lambda>faileds.
     array_map reason_of faileds))"

definition buildPasswordVerifier :: "'i rule js list \<Rightarrow> exn + ('i \<Rightarrow> exn + jsval list)" where
  "buildPasswordVerifier rules =
     and_then (validateRules rules) (\<lambda>_.
       Inr (\<lambda>input. verifier_body rules input))"

text \<open>
  Lines 85-91 again, on rules that may keep state.  A rule takes the store of the
  variables it can reach and returns its outcome with the store as it leaves it.
  \<^verbatim>\<open>rules.map(rule => rule(input))\<close> calls the rules from left to right, each on the store
  the one before left; a throw ends the loop with the store as it is then.  The
  callbacks of \<^verbatim>\<open>filter\<close> and of the second \<^verbatim>\<open>map\<close> read properties of the results and call
  no rule.  The arrow function itself declares no variable and assigns to none.
\<close>

type_synonym ('i, 's) srule = "'i \<Rightarrow> 's \<Rightarrow> (exn + jsval) \<times> 's"

fun call_rule_st :: "('i, 's) srule js \<Rightarrow> 'i \<Rightarrow> 's \<Rightarrow> (exn + jsval) \<times> 's" where
  "call_rule_st (Fn f) input s = f input s"
| "call_rule_st (NotFn v) input s = (Inl (TypeError ''rule is not a function''), s)"

fun array_map_st :: "('a \<Rightarrow> 's \<Rightarrow> (exn + 'b) \<times> 's) \<Rightarrow> 'a list \<Rightarrow> 's \<Rightarrow> (exn + 'b list) \<times> 's" where
  "array_map_st f [] s = (Inr [], s)"
| "array_map_st f (x # xs) s =
     (case f x s of
        (Inl e, s1) \<Rightarrow> (Inl e, s1)
      | (Inr y, s1) \<Rightarrow>
          (case array_map_st f xs s1 of
             (Inl e, s2) \<Rightarrow> (Inl e, s2)
           | (Inr ys, s2) \<Rightarrow> (Inr (y # ys), s2)))"

definition buildPasswordVerifier_st ::
    "('i, 's) srule js list \<Rightarrow> exn + ('i \<Rightarrow> 's \<Rightarrow> (exn + jsval list) \<times> 's)" where
  "buildPasswordVerifier_st rules =
     and_then (validateRules rules) (\<lambda>_.
       Inr (\<lambda>input s.
         case array_map_st (\<lambda>rule. call_rule_st rule input) rules s of
           (Inl e, s1) \<Rightarrow> (Inl e, s1)
         | (Inr results, s1) \<Rightarrow>
             (and_then (array_filter not_passed results) (\<lambda>faileds.
              array_map reason_of faileds), s1)))"


text \<open>
  Lines 107-113: \<^verbatim>\<open>errorSafe(func, mapper)\<close> calls \<^verbatim>\<open>func()\<close> inside \<^verbatim>\<open>try\<close> and drops its
  value; the \<^verbatim>\<open>catch\<close> block returns \<^verbatim>\<open>mapper(err)\<close>, and a throw inside the \<^verbatim>\<open>catch\<close> block
  is not caught.  After the \<^verbatim>\<open>try\<close> statement the function ends without \<^verbatim>\<open>return\<close>.
\<close>

fun call_func :: "(unit \<Rightarrow> exn + jsval) js \<Rightarrow> exn + jsval" where
  "call_func (Fn f) = f ()"
| "call_func (NotFn v) = Inl (TypeError ''func is not a function'')"

fun call_mapper :: "(exn \<Rightarrow> exn + jsval) js \<Rightarrow> exn \<Rightarrow> exn + jsval" where
  "call_mapper (Fn f) err = f err"
| "call_mapper (NotFn v) err = Inl (TypeError ''mapper is not a function'')"

definition errorSafe :: "(unit \<Rightarrow> exn + jsval) js \<Rightarrow> (exn \<Rightarrow> exn + jsval) js \<Rightarrow> exn + jsval" where
  "errorSafe func mapper =
     (case call_func func of
        Inr v \<Rightarrow> Inr Undefined
      | Inl err \<Rightarrow> call_mapper mapper err)"

text \<open>
  Lines 115-124: \<^verbatim>\<open>buidPasswordVerifier\<close> (the name is the file's).  The pipeline runs
  first, outside any \<^verbatim>\<open>try\<close>, and its value, an array, is bound to \<^verbatim>\<open>strategy\<close>; then
  \<^verbatim>\<open>errorSafe\<close> is called with that array and the array \<^verbatim>\<open>["Verification failed"]\<close>.
\<close>

definition buidPasswordVerifier :: "'i rule js list \<Rightarrow> exn + ('i \<Rightarrow> exn + jsval)" where
  "buidPasswordVerifier rules =
     and_then (validateRules rules) (\<lambda>_.
       Inr (\<lambda>input.
         and_then
           (and_then (array_map (\<lambda>rule. call_rule rule input) rules) (\<lambda>results.
            and_then (array_filter not_passed results) (\<lambda>faileds.
            array_map reason_of faileds)))
           (\<lambda>strategy. errorSafe (NotFn (Arr strategy)) (NotFn (Arr [Str ''Verification failed''])))))"

text \<open>The expression \<^verbatim>\<open>build(rules)(input)\<close>: the call of what a builder returned.\<close>

fun build_and_call :: "exn + ('i \<Rightarrow> exn + 'a) \<Rightarrow> 'i \<Rightarrow> exn + 'a" where
  "build_and_call (Inl e) input = Inl e"
| "build_and_call (Inr v) input = v input"

section \<open>The rules of the file\<close>

text \<open>
  \<^verbatim>\<open>String.prototype.toLowerCase\<close> on code units below 256: the letters A-Z and the
  Latin-1 capitals U+00C0-U+00DE other than the multiplication sign U+00D7 move up by 32,
  every other code unit stays.
\<close>

definition toLowerCase_char :: "char \<Rightarrow> char" where
  "toLowerCase_char c =
     (let n = (of_char c :: nat)
      in if (65 \<le> n \<and> n \<le> 90) \<or> (192 \<le> n \<and> n \<le> 222 \<and> n \<noteq> 215)
         then char_of (n + 32) else c)"

definition toLowerCase :: "string \<Rightarrow> string" where
  "toLowerCase s = map toLowerCase_char s"

text \<open>Line 17: \<^verbatim>\<open>input => input.length > 0\<close>.\<close>

fun criteria_nonempty :: "jsval \<Rightarrow> exn + jsval" where
  "criteria_nonempty Undefined = Inl (TypeError ''Cannot read property length of undefined'')"
| "criteria_nonempty Null = Inl (TypeError ''Cannot read property length of null'')"
| "criteria_nonempty (Str s) = Inr (Bool (0 < length s))"
| "criteria_nonempty (Arr xs) = Inr (Bool (0 < length xs))"
| "criteria_nonempty (Bool b) = Inr (Bool False)"
| "criteria_nonempty (Obj ps) = Inr (Bool False)"

definition exampleRule :: "jsval rule" where
  "exampleRule = verify criteria_nonempty (Str ''You must enter a password!'')"

text \<open>
  Line 37: \<^verbatim>\<open>input => input && input.length > 6\<close>.  A falsy input is the value of the
  conjunction; otherwise the value is the comparison, and \<^verbatim>\<open>undefined > 6\<close> is false.
\<close>

fun criteria_length :: "jsval \<Rightarrow> exn + jsval" where
  "criteria_length (Str s) = Inr (if s = [] then Str s else Bool (6 < length s))"
| "criteria_length (Arr xs) = Inr (Bool (6 < length xs))"
| "criteria_length (Bool b) = Inr (Bool False)"
| "criteria_length (Obj ps) = Inr (Bool False)"
| "criteria_length Undefined = Inr Undefined"
| "criteria_length Null = Inr Null"

text \<open>
  Lines 38 and 97: \<^verbatim>\<open>input => input.toLowerCase() !== input\<close>.  Reading the property of
  \<^verbatim>\<open>undefined\<close> or \<^verbatim>\<open>null\<close> throws; on a value that is not a string the property is
  \<^verbatim>\<open>undefined\<close> and the call throws.
\<close>

fun criteria_uppercase :: "jsval \<Rightarrow> exn + jsval" where
  "criteria_uppercase (Str s) = Inr (Bool (toLowerCase s \<noteq> s))"
| "criteria_uppercase Undefined = Inl (TypeError ''Cannot read property toLowerCase of undefined'')"
| "criteria_uppercase Null = Inl (TypeError ''Cannot read property toLowerCase of null'')"
| "criteria_uppercase (Bool b) = Inl (TypeError ''input.toLowerCase is not a function'')"
| "criteria_uppercase (Arr xs) = Inl (TypeError ''input.toLowerCase is not a function'')"
| "criteria_uppercase (Obj ps) = Inl (TypeError ''input.toLowerCase is not a function'')"

text \<open>Lines 36-39: the two-rule array \<^verbatim>\<open>rules\<close>.\<close>

definition rules_line36 :: "jsval rule js list" where
  "rules_line36 =
     [Fn (verify criteria_length (Str ''Minimum length is six characters'')),
      Fn (verify criteria_uppercase (Str ''Must contain an uppercase character''))]"

text \<open>Lines 96-98 and 130: the one-rule array with the uppercase rule alone.\<close>

definition rules_line96 :: "jsval rule js list" where
  "rules_line96 =
     [Fn (verify criteria_uppercase (Str ''Must contain an uppercase character''))]"

text \<open>A rule of the first kind as a rule of the second: it returns the store as it got it.\<close>

fun pure_rule :: "'i rule js \<Rightarrow> ('i, 's) srule js" where
  "pure_rule (Fn f) = Fn (\<lambda>input s. (f input, s))"
| "pure_rule (NotFn v) = NotFn v"


section \<open>Vocabulary for the properties\<close>

text \<open>
  The two verdicts \<^verbatim>\<open>verify\<close> builds, \<^verbatim>\<open>{ passed: true }\<close> and \<^verbatim>\<open>{ passed: false, reason }\<close>,
  and total readings of what the pipeline's callbacks compute on a value that is neither
  \<^verbatim>\<open>undefined\<close> nor \<^verbatim>\<open>null\<close>: \<open>property v k\<close> is \<^verbatim>\<open>v.k\<close> and \<open>failed v\<close> is \<^verbatim>\<open>!v.passed\<close>.
\<close>

fun nullish :: "jsval \<Rightarrow> bool" where
  "nullish Undefined = True"
| "nullish Null = True"
| "nullish (Bool b) = False"
| "nullish (Str s) = False"
| "nullish (Arr xs) = False"
| "nullish (Obj ps) = False"

fun property :: "jsval \<Rightarrow> key \<Rightarrow> jsval" where
  "property (Obj ps) k = (case map_of ps k of None \<Rightarrow> Undefined | Some v \<Rightarrow> v)"
| "property Undefined k = Undefined"
| "property Null k = Undefined"
| "property (Bool b) k = Undefined"
| "property (Str s) k = Undefined"
| "property (Arr xs) k = Undefined"

definition failed :: "jsval \<Rightarrow> bool" where
  "failed result = (\<not> truthy (property result K_passed))"

definition Passed :: jsval where
  "Passed = Obj [(K_passed, Bool True)]"

definition Failed :: "jsval \<Rightarrow> jsval" where
  "Failed reason = Obj [(K_passed, Bool False), (K_reason, reason)]"

section \<open>Sequencing, map and filter\<close>

lemma and_then_Inr_iff: "and_then m k = Inr y \<longleftrightarrow> (\<exists>x. m = Inr x \<and> k x = Inr y)"
  by (cases m) auto

lemma and_then_Inl_iff:
  "and_then m k = Inl e \<longleftrightarrow> m = Inl e \<or> (\<exists>x. m = Inr x \<and> k x = Inl e)"
  by (cases m) auto

lemma array_map_Inr_iff:
  "array_map f xs = Inr ys \<longleftrightarrow> list_all2 (\<lambda>x y. f x = Inr y) xs ys"
  by (induction xs arbitrary: ys) (auto simp: and_then_Inr_iff list_all2_Cons1)

lemma array_map_total:
  "(\<And>x. x \<in> set xs \<Longrightarrow> f x = Inr (g x)) \<Longrightarrow> array_map f xs = Inr (map g xs)"
  by (induction xs) auto

lemma array_filter_total:
  "(\<And>x. x \<in> set xs \<Longrightarrow> p x = Inr (q x)) \<Longrightarrow> array_filter p xs = Inr (filter q xs)"
  by (induction xs) auto

lemma array_filter_Inr_D:
  "array_filter p xs = Inr ys \<Longrightarrow> x \<in> set xs \<Longrightarrow> \<exists>b. p x = Inr b"
  by (induction xs arbitrary: ys) (auto simp: and_then_Inr_iff)

lemma get_prop_nullish:
  "get_prop v k = Inr w \<longleftrightarrow> \<not> nullish v \<and> w = property v k"
  by (cases v) auto

lemma not_passed_Inr_iff:
  "not_passed v = Inr b \<longleftrightarrow> \<not> nullish v \<and> b = failed v"
  by (auto simp: not_passed_def failed_def and_then_Inr_iff get_prop_nullish)

lemma reason_of_Inr_iff:
  "reason_of v = Inr w \<longleftrightarrow> \<not> nullish v \<and> w = property v K_reason"
  by (simp add: reason_of_def get_prop_nullish)

lemma typeof_function_iff: "typeof rule = ''function'' \<longleftrightarrow> (\<exists>f. rule = Fn f)"
proof (cases rule)
  case (Fn f)
  then show ?thesis by simp
next
  case (NotFn v)
  then show ?thesis by (cases v) simp_all
qed

lemma validateRules_Inr_iff:
  "validateRules rules = Inr u \<longleftrightarrow> (\<forall>rule \<in> set rules. \<exists>f. rule = Fn f)"
  by (auto simp: validateRules_def list_ex_iff typeof_function_iff)

lemma validateRules_Inl_iff:
  "validateRules rules = Inl e \<longleftrightarrow>
     e = Error ''Rules must be a function'' \<and> (\<exists>v. NotFn v \<in> set rules)"
proof -
  have "(\<exists>rule \<in> set rules. \<not> (\<exists>f. rule = Fn f)) \<longleftrightarrow> (\<exists>v. NotFn v \<in> set rules)"
    by (metis js.exhaust js.distinct(1))
  then show ?thesis
    by (auto simp: validateRules_def list_ex_iff typeof_function_iff)
qed

lemma verifyPassword_Inr_iff:
  "verifyPassword rules input = Inr reasons \<longleftrightarrow>
     (\<exists>results.
        list_all2 (\<lambda>rule result. call_rule rule input = Inr result \<and> \<not> nullish result) rules results \<and>
        reasons = map (\<lambda>result. property result K_reason) (filter failed results))"
  (is "?L \<longleftrightarrow> ?R")
proof
  assume ?L
  then obtain results faileds where
    m: "list_all2 (\<lambda>rule result. call_rule rule input = Inr result) rules results" and
    f: "array_filter not_passed results = Inr faileds" and
    r: "array_map reason_of faileds = Inr reasons"
    by (auto simp: verifyPassword_def and_then_Inr_iff array_map_Inr_iff)
  have nn: "\<not> nullish result" if "result \<in> set results" for result
    using array_filter_Inr_D [OF f that] by (auto simp: not_passed_Inr_iff)
  then have "array_filter not_passed results = Inr (filter failed results)"
    by (intro array_filter_total) (simp add: not_passed_Inr_iff)
  with f have fe: "faileds = filter failed results" by simp
  have "array_map reason_of faileds = Inr (map (\<lambda>result. property result K_reason) faileds)"
    by (intro array_map_total) (simp add: reason_of_Inr_iff fe nn)
  with r have "reasons = map (\<lambda>result. property result K_reason) (filter failed results)"
    by (simp add: fe)
  moreover have "list_all2 (\<lambda>rule result. call_rule rule input = Inr result \<and> \<not> nullish result) rules results"
    using m nn by (auto simp: list_all2_conv_all_nth)
  ultimately show ?R by blast
next
  assume ?R
  then obtain results where
    m: "list_all2 (\<lambda>rule result. call_rule rule input = Inr result \<and> \<not> nullish result) rules results" and
    r: "reasons = map (\<lambda>result. property result K_reason) (filter failed results)"
    by blast
  have nn: "\<not> nullish result" if "result \<in> set results" for result
    using m that by (auto simp: list_all2_conv_all_nth in_set_conv_nth)
  have 1: "array_map (\<lambda>rule. call_rule rule input) rules = Inr results"
    using m by (auto simp: array_map_Inr_iff list_all2_conv_all_nth)
  have 2: "array_filter not_passed results = Inr (filter failed results)"
    by (intro array_filter_total) (simp add: not_passed_Inr_iff nn)
  have 3: "array_map reason_of (filter failed results) =
      Inr (map (\<lambda>result. property result K_reason) (filter failed results))"
    by (intro array_map_total) (simp add: reason_of_Inr_iff nn)
  show ?L by (simp add: verifyPassword_def 1 2 3 r)
qed

lemma unchecked_eq_verifyPassword:
  "buildPasswordVerifier_unchecked rules input = verifyPassword rules input"
  by (simp add: buildPasswordVerifier_unchecked_def verifyPassword_def)

lemma verifier_body_eq_verifyPassword:
  "verifier_body rules input = verifyPassword rules input"
  by (simp add: verifier_body_def verifyPassword_def)

lemma build_and_call_valid:
  "validateRules rules = Inr u \<Longrightarrow>
     build_and_call (buildPasswordVerifier rules) input = verifyPassword rules input"
  by (simp add: buildPasswordVerifier_def verifier_body_eq_verifyPassword)

section \<open>Rules that keep state\<close>


text \<open>
  On rules that keep no state the second embedding of the validated builder does what
  the first does, and returns the store it was given.
\<close>

lemma array_map_st_pure_rule:
  "array_map_st (\<lambda>rule. call_rule_st rule input) (map pure_rule rules) s
     = (array_map (\<lambda>rule. call_rule rule input) rules, s)"
proof (induction rules)
  case Nil
  then show ?case by simp
next
  case (Cons rule rules)
  have c: "call_rule_st (pure_rule rule) input s = (call_rule rule input, s)"
    by (cases rule) simp_all
  show ?case
    by (cases "call_rule rule input";
        cases "array_map (\<lambda>rule. call_rule rule input) rules")
       (simp_all add: c Cons.IH)
qed

lemma typeof_pure_rule: "typeof (pure_rule rule) = typeof rule"
  by (cases rule) simp_all

lemma validateRules_pure_rule: "validateRules (map pure_rule rules) = validateRules rules"
  by (simp add: validateRules_def list_ex_iff typeof_pure_rule)

lemma buildPasswordVerifier_st_pure_rule:
  assumes "validateRules rules = Inr ()"
  shows "buildPasswordVerifier_st (map pure_rule rules)
     = Inr (\<lambda>input s. (verifier_body rules input, s))"
proof -
  have "(\<lambda>input s.
          case array_map_st (\<lambda>rule. call_rule_st rule input) (map pure_rule rules) s of
            (Inl e, s1) \<Rightarrow> (Inl e, s1)
          | (Inr results, s1) \<Rightarrow>
              (and_then (array_filter not_passed results) (\<lambda>faileds.
               array_map reason_of faileds), s1))
        = (\<lambda>input s. (verifier_body rules input, s))"
  proof (intro ext)
    fix input s
    show "(case array_map_st (\<lambda>rule. call_rule_st rule input) (map pure_rule rules) s of
            (Inl e, s1) \<Rightarrow> (Inl e, s1)
          | (Inr results, s1) \<Rightarrow>
              (and_then (array_filter not_passed results) (\<lambda>faileds.
               array_map reason_of faileds), s1))
        = (verifier_body rules input, s)"
      by (cases "array_map (\<lambda>rule. call_rule rule input) rules")
         (simp_all add: array_map_st_pure_rule verifier_body_def)
  qed
  with assms show ?thesis
    by (simp add: buildPasswordVerifier_st_def validateRules_pure_rule)
qed

section \<open>What the verifier with error containment does\<close>

text \<open>
  Whatever the rules and the input, the function that \<^verbatim>\<open>buidPasswordVerifier\<close> returns
  never returns a value.  A throw of a rule leaves the function before \<^verbatim>\<open>errorSafe\<close> is
  reached; otherwise \<^verbatim>\<open>errorSafe\<close> calls the array \<^verbatim>\<open>strategy\<close>, catches that TypeError and
  calls the array \<^verbatim>\<open>["Verification failed"]\<close> in the \<^verbatim>\<open>catch\<close> block, which throws again.
\<close>

lemma buidPasswordVerifier_never_returns:
  "build_and_call (buidPasswordVerifier rules) input \<noteq> Inr v"
proof (cases "validateRules rules")
  case (Inl e)
  then show ?thesis by (simp add: buidPasswordVerifier_def)
next
  case (Inr u)
  then show ?thesis
    by (cases "verifyPassword rules input")
       (simp_all add: buidPasswordVerifier_def verifyPassword_def errorSafe_def)
qed

section \<open>The claims\<close>

text \<open>
  Claim C1 says that a rule that throws never makes the verification function throw:
  the caller gets the one fallback reason \<^verbatim>\<open>["Verification failed"]\<close>.  On the code this
  fails.  With the rule array of lines 96-98 and the input \<^verbatim>\<open>null\<close> (the file's own test,
  lines 127-141), both the function built by \<^verbatim>\<open>buidPasswordVerifier\<close> (lines 115-124) and
  the one built by \<^verbatim>\<open>buildPasswordVerifier\<close> (lines 85-91, the one the test calls) throw
  the rule's TypeError.
\<close>

theorem buidPasswordVerifier_propagates_fault:
  "build_and_call (buidPasswordVerifier rules_line96) Null
     = Inl (TypeError ''Cannot read property toLowerCase of null'') \<and>
   build_and_call (buildPasswordVerifier rules_line96) Null
     = Inl (TypeError ''Cannot read property toLowerCase of null'')"
  by code_simp

text \<open>
  Claim C2: \<^verbatim>\<open>buildPasswordVerifier\<close> (lines 85-91) throws at construction when some
  element of the rule collection is not a function, and the error is the one
  \<^verbatim>\<open>validateRules\<close> makes, \<^verbatim>\<open>Error("Rules must be a function")\<close>; when every element is a
  function it returns the verification function.  A builder that threw has returned no
  function, so no input has been processed.
\<close>

theorem buildPasswordVerifier_validates_eagerly:
  "((\<exists>v. NotFn v \<in> set rules) \<longrightarrow>
      buildPasswordVerifier rules = Inl (Error ''Rules must be a function'')) \<and>
   ((\<forall>rule \<in> set rules. \<exists>f. rule = Fn f) \<longrightarrow>
      buildPasswordVerifier rules = Inr (\<lambda>input. verifier_body rules input))"
proof (intro conjI impI)
  assume "\<exists>v. NotFn v \<in> set rules"
  then have "validateRules rules = Inl (Error ''Rules must be a function'')"
    by (simp add: validateRules_Inl_iff)
  then show "buildPasswordVerifier rules = Inl (Error ''Rules must be a function'')"
    by (simp add: buildPasswordVerifier_def)
next
  assume "\<forall>rule \<in> set rules. \<exists>f. rule = Fn f"
  then have "validateRules rules = Inr ()"
    by (simp add: validateRules_Inr_iff)
  then show "buildPasswordVerifier rules = Inr (\<lambda>input. verifier_body rules input)"
    by (simp add: buildPasswordVerifier_def)
qed

text \<open>
  The witness of C2: an array with a string in it (the string of line 56), and the
  two-rule array of lines 36-39.
\<close>

theorem buildPasswordVerifier_validates_eagerly_witness:
  "(\<exists>v. NotFn v \<in> set [Fn exampleRule, NotFn (Str ''Must contain an uppercase character'')]) \<and>
   buildPasswordVerifier [Fn exampleRule, NotFn (Str ''Must contain an uppercase character'')]
     = Inl (Error ''Rules must be a function'') \<and>
   buildPasswordVerifier rules_line36 = Inr (\<lambda>input. verifier_body rules_line36 input)"
proof -
  have 1: "\<exists>v. NotFn v \<in> set [Fn exampleRule, NotFn (Str ''Must contain an uppercase character'')]"
    by simp
  have 2: "\<forall>rule \<in> set rules_line36. \<exists>f. rule = Fn f"
    by (simp add: rules_line36_def)
  from 1 2
    buildPasswordVerifier_validates_eagerly
      [of "[Fn exampleRule, NotFn (Str ''Must contain an uppercase character'')]"]
    buildPasswordVerifier_validates_eagerly [of rules_line36]
  show ?thesis by blast
qed

text \<open>
  Claim C3: when the rule set is valid and every rule passes on the input (each rule
  returns a result on which the filter's callback \<^verbatim>\<open>!result.passed\<close> is false), the
  verification function of \<^verbatim>\<open>buildPasswordVerifier\<close> (lines 85-91) returns the empty
  array, and so does \<^verbatim>\<open>verifyPassword(rules, input)\<close> (lines 4-11).
\<close>

theorem all_rules_pass_gives_empty:
  assumes "validateRules rules = Inr ()"
    and "\<forall>rule \<in> set rules. \<exists>result. call_rule rule input = Inr result \<and> not_passed result = Inr False"
  shows "build_and_call (buildPasswordVerifier rules) input = Inr [] \<and>
         verifyPassword rules input = Inr []"
proof -
  define results where "results = map (\<lambda>rule. projr (call_rule rule input)) rules"
  have "list_all2 (\<lambda>rule result. call_rule rule input = Inr result \<and> \<not> nullish result) rules results"
    unfolding results_def list_all2_map2
    by (rule list_all2_all_nthI) (use assms(2) in \<open>auto simp: not_passed_Inr_iff dest!: nth_mem\<close>)
  moreover have "filter failed results = []"
    unfolding results_def filter_empty_conv
    using assms(2) by (auto simp: not_passed_Inr_iff)
  ultimately have "verifyPassword rules input = Inr []"
    unfolding verifyPassword_Inr_iff by (intro exI [of _ results]) simp
  with assms(1) show ?thesis
    by (simp add: build_and_call_valid)
qed

text \<open>The witness of C3: the rules of lines 36-39 on a seven-letter input with a capital.\<close>

theorem all_rules_pass_gives_empty_witness:
  "validateRules rules_line36 = Inr () \<and>
   build_and_call (buildPasswordVerifier rules_line36) (Str ''Abcdefg'') = Inr [] \<and>
   verifyPassword rules_line36 (Str ''Abcdefg'') = Inr []"
proof -
  have 1: "validateRules rules_line36 = Inr ()" by code_simp
  have 2: "\<forall>rule \<in> set rules_line36. \<exists>result.
      call_rule rule (Str ''Abcdefg'') = Inr result \<and> not_passed result = Inr False"
  proof -
    have "call_rule rule (Str ''Abcdefg'') = Inr Passed" if "rule \<in> set rules_line36" for rule
    proof -
      have "list_all (\<lambda>rule. call_rule rule (Str ''Abcdefg'') = Inr Passed) rules_line36"
        by code_simp
      with that show ?thesis by (simp add: list_all_iff)
    qed
    moreover have "not_passed Passed = Inr False"
      by (simp add: not_passed_def Passed_def)
    ultimately show ?thesis by auto
  qed
  from all_rules_pass_gives_empty [OF 1 2] 1 show ?thesis by simp
qed

text \<open>
  Claim C4: for a valid rule set, the verification function of \<^verbatim>\<open>buildPasswordVerifier\<close>
  returns the array \<open>reasons\<close> exactly when the rules, applied in order, give results
  (\<open>results\<close> is aligned with \<open>rules\<close> position by position, and no result is
  \<^verbatim>\<open>undefined\<close> or \<^verbatim>\<open>null\<close>) and \<open>reasons\<close> holds the \<^verbatim>\<open>reason\<close> of each failed result, one per
  failed result, in the order of the rules.
\<close>

theorem reasons_preserve_rule_order:
  assumes "validateRules rules = Inr ()"
  shows "build_and_call (buildPasswordVerifier rules) input = Inr reasons \<longleftrightarrow>
     (\<exists>results.
        list_all2 (\<lambda>rule result. call_rule rule input = Inr result \<and> \<not> nullish result) rules results \<and>
        reasons = map (\<lambda>result. property result K_reason) (filter failed results))"
  using assms by (simp add: build_and_call_valid verifyPassword_Inr_iff)

text \<open>The witness of C4: the rules of lines 36-39 on the empty string; both rules fail.\<close>

theorem reasons_preserve_rule_order_witness:
  "validateRules rules_line36 = Inr () \<and>
   build_and_call (buildPasswordVerifier rules_line36) (Str '''')
     = Inr [Str ''Minimum length is six characters'', Str ''Must contain an uppercase character''] \<and>
   (\<exists>results.
      list_all2 (\<lambda>rule result. call_rule rule (Str '''') = Inr result \<and> \<not> nullish result)
        rules_line36 results \<and>
      [Str ''Minimum length is six characters'', Str ''Must contain an uppercase character'']
        = map (\<lambda>result. property result K_reason) (filter failed results))"
proof -
  have 1: "validateRules rules_line36 = Inr ()" by code_simp
  have 2: "build_and_call (buildPasswordVerifier rules_line36) (Str '''')
     = Inr [Str ''Minimum length is six characters'', Str ''Must contain an uppercase character'']"
    by code_simp
  from reasons_preserve_rule_order [OF 1] 1 2 show ?thesis by blast
qed

text \<open>
  Claim C5 (scenario B): with the two rules of lines 36-39 the verifier of lines 25-32
  returns both reasons, in order, for the empty string.  For \<^verbatim>\<open>"Abcdef"\<close> the claim (and
  the comment of line 42) says \<^verbatim>\<open>[]\<close>; the first rule tests \<^verbatim>\<open>input.length > 6\<close>, the
  string has six characters, and the code returns the minimum-length reason.
\<close>

theorem scenario_B_on_code:
  "buildPasswordVerifier_unchecked rules_line36 (Str '''')
     = Inr [Str ''Minimum length is six characters'', Str ''Must contain an uppercase character''] \<and>
   buildPasswordVerifier_unchecked rules_line36 (Str ''Abcdef'')
     = Inr [Str ''Minimum length is six characters'']"
  by code_simp

text \<open>
  Claim C6: when \<^verbatim>\<open>criteria(input)\<close> returns a value \<open>c\<close>, the rule \<^verbatim>\<open>verify(criteria, reason)\<close>
  applied to the input returns the verdict \<open>Passed\<close> if \<open>c\<close> is true (truthy) and the
  verdict \<open>Failed reason\<close>, with exactly that reason, otherwise.
\<close>

theorem verify_contract:
  "criteria input = Inr c \<Longrightarrow>
     verify criteria reason input = Inr (if truthy c then Passed else Failed reason)"
  by (simp add: verify_def Passed_def Failed_def)

text \<open>The witness of C6: the length criterion on a string it accepts and on one it rejects.\<close>

theorem verify_contract_witness:
  "criteria_length (Str ''Abcdefg'') = Inr (Bool True) \<and>
   verify criteria_length (Str ''Minimum length is six characters'') (Str ''Abcdefg'') = Inr Passed \<and>
   criteria_length (Str ''Abcdef'') = Inr (Bool False) \<and>
   verify criteria_length (Str ''Minimum length is six characters'') (Str ''Abcdef'')
     = Inr (Failed (Str ''Minimum length is six characters''))"
proof -
  have t: "criteria_length (Str ''Abcdefg'') = Inr (Bool True)" by simp
  have f: "criteria_length (Str ''Abcdef'') = Inr (Bool False)" by simp
  show ?thesis
    using t f
      verify_contract [of criteria_length "Str ''Abcdefg''" "Bool True"
        "Str ''Minimum length is six characters''"]
      verify_contract [of criteria_length "Str ''Abcdef''" "Bool False"
        "Str ''Minimum length is six characters''"]
    by simp
qed

text \<open>
  Claim C7 says that a Failed verdict of a rule made by \<^verbatim>\<open>verify\<close> always carries a
  non-empty reason string.  \<^verbatim>\<open>verify\<close> does not look at \<^verbatim>\<open>reason\<close>: the rule
  \<^verbatim>\<open>verify(criteria, "")\<close> fails on the empty string with the empty reason.
\<close>

theorem verify_empty_reason_counterexample:
  "verify criteria_length (Str '''') (Str '''') = Inr (Failed (Str '''')) \<and>
   not_passed (Failed (Str '''')) = Inr True \<and>
   reason_of (Failed (Str '''')) = Inr (Str '''')"
  by (simp add: verify_def Failed_def not_passed_def reason_of_def)

text \<open>
  Claim C7 as amended: for a rule made by \<^verbatim>\<open>verify\<close> with a non-empty reason string
  \<open>s\<close>, whenever the verdict on an input is Failed (\<^verbatim>\<open>!verdict.passed\<close> is true), the
  verdict carries that non-empty string as its reason.
\<close>

theorem verify_failed_carries_reason:
  assumes "verify criteria (Str s) input = Inr verdict"
    and "not_passed verdict = Inr True"
    and "s \<noteq> []"
  shows "reason_of verdict = Inr (Str s) \<and> Str s \<noteq> Str []"
proof -
  from assms(1) obtain c where c: "criteria input = Inr c"
    and v: "verdict = (if truthy c then Passed else Failed (Str s))"
    by (auto simp: verify_def and_then_Inr_iff Passed_def Failed_def)
  have "\<not> truthy c"
    using assms(2) v by (auto simp: not_passed_def Passed_def split: if_splits)
  with v have "verdict = Failed (Str s)" by simp
  with assms(3) show ?thesis by (simp add: reason_of_def Failed_def)
qed

text \<open>The witness of amended C7: the uppercase rule of line 38 on a lower-case string.\<close>

theorem verify_failed_carries_reason_witness:
  "verify criteria_uppercase (Str ''Must contain an uppercase character'') (Str ''abc'')
     = Inr (Failed (Str ''Must contain an uppercase character'')) \<and>
   not_passed (Failed (Str ''Must contain an uppercase character'')) = Inr True \<and>
   reason_of (Failed (Str ''Must contain an uppercase character''))
     = Inr (Str ''Must contain an uppercase character'')"
proof -
  have 1: "verify criteria_uppercase (Str ''Must contain an uppercase character'') (Str ''abc'')
     = Inr (Failed (Str ''Must contain an uppercase character''))"
    by code_simp
  have 2: "not_passed (Failed (Str ''Must contain an uppercase character'')) = Inr True"
    by (simp add: not_passed_def Failed_def)
  have 3: "''Must contain an uppercase character'' \<noteq> []" by simp
  from verify_failed_carries_reason [OF 1 2 3] 1 2 show ?thesis by simp
qed




text \<open>
  Claim C9: when \<^verbatim>\<open>func()\<close> returns a value, \<^verbatim>\<open>errorSafe(func, mapper)\<close> returns
  \<^verbatim>\<open>undefined\<close>, not that value; when \<^verbatim>\<open>func()\<close> throws \<open>err\<close>, \<^verbatim>\<open>errorSafe\<close> does what
  \<^verbatim>\<open>mapper(err)\<close> does.
\<close>

theorem errorSafe_drops_value:
  "(call_func func = Inr v \<longrightarrow> errorSafe func mapper = Inr Undefined) \<and>
   (call_func func = Inl err \<longrightarrow> errorSafe func mapper = call_mapper mapper err)"
  by (simp add: errorSafe_def)

text \<open>The witness of C9: a function that returns a string, and one that throws.\<close>

theorem errorSafe_drops_value_witness:
  "call_func (Fn (\<lambda>_. Inr (Str ''ok''))) = Inr (Str ''ok'') \<and>
   errorSafe (Fn (\<lambda>_. Inr (Str ''ok''))) (Fn (\<lambda>err. Inr (Arr [Str ''Verification failed'']))) = Inr Undefined \<and>
   call_func (Fn (\<lambda>_. Inl (Error ''boom''))) = Inl (Error ''boom'') \<and>
   errorSafe (Fn (\<lambda>_. Inl (Error ''boom''))) (Fn (\<lambda>err. Inr (Arr [Str ''Verification failed''])))
     = Inr (Arr [Str ''Verification failed''])"
  using
    errorSafe_drops_value [of "Fn (\<lambda>_. Inr (Str ''ok''))" "Str ''ok''"
      "Fn (\<lambda>err. Inr (Arr [Str ''Verification failed'']))" "Error ''boom''"]
    errorSafe_drops_value [of "Fn (\<lambda>_. Inl (Error ''boom''))" "Str ''ok''"
      "Fn (\<lambda>err. Inr (Arr [Str ''Verification failed'']))" "Error ''boom''"]
  by simp

text \<open>
  Claim C10: on a list of callable rules, \<^verbatim>\<open>buildPasswordVerifier(rules)(input)\<close> and
  \<^verbatim>\<open>verifyPassword(rules, input)\<close> have the same outcome: the same array of reasons
  when the rules do not throw, and the same error otherwise.
\<close>

theorem builder_agrees_with_verifyPassword:
  assumes "\<forall>rule \<in> set rules. \<exists>f. rule = Fn f"
  shows "build_and_call (buildPasswordVerifier rules) input = verifyPassword rules input"
proof -
  from assms have "validateRules rules = Inr ()"
    by (simp add: validateRules_Inr_iff)
  then show ?thesis by (rule build_and_call_valid)
qed

text \<open>The witness of C10: the rules of lines 36-39 on \<^verbatim>\<open>"Abcdef"\<close>.\<close>

theorem builder_agrees_with_verifyPassword_witness:
  "build_and_call (buildPasswordVerifier rules_line36) (Str ''Abcdef'')
     = verifyPassword rules_line36 (Str ''Abcdef'') \<and>
   verifyPassword rules_line36 (Str ''Abcdef'') = Inr [Str ''Minimum length is six characters'']"
proof -
  have 1: "\<forall>rule \<in> set rules_line36. \<exists>f. rule = Fn f"
    by (simp add: rules_line36_def)
  have 2: "verifyPassword rules_line36 (Str ''Abcdef'') = Inr [Str ''Minimum length is six characters'']"
    by code_simp
  from builder_agrees_with_verifyPassword [OF 1] 2 show ?thesis by simp
qed

end
